theory Spec2Isabelle
  imports Complex_Main "HOL-Library.Sublist"
begin

section \<open>Real-time buffering and chunk extraction (app/app_hailo_whisper.py)\<close>

text \<open>
  Audio samples are float32 values in the source; they are modelled as real numbers, so
  the casts \<open>astype(np.float32)\<close> are the identity and NaN or infinite samples are outside
  the model. The buffer operations do not inspect samples and are polymorphic in them.
\<close>

subsection \<open>The shared buffer\<close>

text \<open>
  \<open>indata\<close> is the block handed to \<open>audio_callback\<close> by the input stream: one row per
  frame, one column per channel. The stream is opened with \<open>channels=1\<close>, so every row
  has a first entry; a row is a pair of that entry and the remaining channels.
  \<open>indata[:, 0]\<close> keeps the first entry of each row.
\<close>

type_synonym 'a indata = "('a \<times> 'a list) list"

definition column0 :: "'a indata \<Rightarrow> 'a list" where
  "column0 indata = map fst indata"

text \<open>Line 137: \<open>audio_buffer = np.concatenate([audio_buffer, indata[:, 0]])\<close>.\<close>

definition buffer_append :: "'a indata \<Rightarrow> 'a list \<Rightarrow> 'a list" where
  "buffer_append indata audio_buffer = audio_buffer @ column0 indata"

text \<open>
  Python's \<open>int(x)\<close> on a finite float truncates toward zero. The chunk length is a float
  (or the integer defaults 5 and 10); it is modelled as a real number, and the sample rate
  \<open>SAMPLE_RATE\<close>, a constant of \<open>common.audio_utils\<close>, is a parameter.
\<close>

definition py_int :: "real \<Rightarrow> int" where
  "py_int x = (if 0 \<le> x then \<lfloor>x\<rfloor> else \<lceil>x\<rceil>)"

definition required_samples :: "real \<Rightarrow> int \<Rightarrow> int" where
  "required_samples chunk_length SAMPLE_RATE = py_int (chunk_length * of_int SAMPLE_RATE)"

text \<open>
  Lines 144 to 154, the critical section of \<open>transcription_worker\<close>: the result is the
  value of \<open>audio_chunk\<close> (\<open>None\<close> when nothing was extracted) and the buffer afterwards.
\<close>

definition worker_extract :: "int \<Rightarrow> 'a list \<Rightarrow> 'a list option \<times> 'a list" where
  "worker_extract required audio_buffer =
     (if int (length audio_buffer) \<ge> required \<and> required > 0
      then (Some (take (nat required) audio_buffer), drop (nat required) audio_buffer)
      else (None, audio_buffer))"

text \<open>
  A finite sequence of buffer operations, as one interleaving of the capture callback and
  the worker's critical section under the lock. \<open>run_ops\<close> returns the chunks extracted,
  in order, and the final buffer.
\<close>

datatype 'a buf_op = Append "'a indata" | Extract int

fun run_ops :: "'a buf_op list \<Rightarrow> 'a list \<Rightarrow> 'a list list \<times> 'a list" where
  "run_ops [] buf = ([], buf)"
| "run_ops (Append indata # ops) buf = run_ops ops (buffer_append indata buf)"
| "run_ops (Extract n # ops) buf =
     (case worker_extract n buf of
        (None, buf') \<Rightarrow> run_ops ops buf'
      | (Some chunk, buf') \<Rightarrow> (case run_ops ops buf' of (chunks, final) \<Rightarrow> (chunk # chunks, final)))"

fun appended :: "'a buf_op list \<Rightarrow> 'a list list" where
  "appended [] = []"
| "appended (Append indata # ops) = column0 indata # appended ops"
| "appended (Extract n # ops) = appended ops"

subsection \<open>Effects and collaborators of the worker\<close>

text \<open>
  A Python exception caught by \<open>except Exception as e\<close> is the value \<open>Exception msg\<close>,
  where \<open>msg\<close> is \<open>str(e)\<close>. Exceptions outside \<open>Exception\<close> (a keyboard interrupt) are
  not modelled.
\<close>

datatype exn = Exception string

fun str_exn :: "exn \<Rightarrow> string" where
  "str_exn (Exception msg) = msg"

text \<open>
  What the worker does to the outside is recorded as a trace of events, in program order:
  text written to standard output (with its line end), calls of \<open>time.sleep\<close>, and the
  calls into the trimmer, the feature extractor, the inference backend and the sanitizer
  with their arguments. \<open>'f\<close> is the type of a feature frame, \<open>'r\<close> of a raw result.
\<close>

datatype ('f, 'r) event =
    Print string
  | Sleep real
  | Trim "real list" bool bool
  | Preprocess "real list" bool real real
  | SendData 'f
  | GetTranscription
  | CleanTranscription 'r

text \<open>
  The collaborators are imported from modules outside these sources, so they are
  parameters. Each takes the state \<open>'w\<close> of the outside world (the device and its queues)
  and returns its result, or the exception it raises, with the world afterwards.
  \<open>improve_input_audio(audio, vad, low_audio_gain)\<close> returns the improved audio and a start
  time, which may be \<open>None\<close>.
\<close>

record ('f, 'r, 'w) collaborators =
  improve_input_audio :: "real list \<Rightarrow> bool \<Rightarrow> bool \<Rightarrow> 'w \<Rightarrow> (exn + real list \<times> real option) \<times> 'w"
  preprocess :: "real list \<Rightarrow> bool \<Rightarrow> real \<Rightarrow> real \<Rightarrow> 'w \<Rightarrow> (exn + 'f list) \<times> 'w"
  send_data :: "'f \<Rightarrow> 'w \<Rightarrow> (exn + unit) \<times> 'w"
  get_transcription :: "'w \<Rightarrow> (exn + 'r) \<times> 'w"
  clean_transcription :: "'r \<Rightarrow> 'w \<Rightarrow> (exn + string) \<times> 'w"

subsection \<open>Strings and amplitudes\<close>

definition newline :: string where
  "newline = [CHR 0x0A]"

text \<open>
  \<open>str.strip()\<close> removes leading and trailing whitespace. A \<open>char\<close> is a code point below
  256; these are the ones for which Python's \<open>str.isspace\<close> holds.
\<close>

definition py_isspace :: "char \<Rightarrow> bool" where
  "py_isspace c = (of_char c \<in> {9, 10, 11, 12, 13, 28, 29, 30, 31, 32, 133, 160 :: nat})"

definition strip :: "string \<Rightarrow> string" where
  "strip s = rev (dropWhile py_isspace (rev (dropWhile py_isspace s)))"

text \<open>
  \<open>np.max(np.abs(a))\<close>: NumPy raises a \<open>ValueError\<close> on an empty array.
\<close>

definition np_max_abs :: "real list \<Rightarrow> exn + real" where
  "np_max_abs a =
     (case a of
        [] \<Rightarrow> Inl (Exception ''zero-size array to reduction operation maximum which has no identity'')
      | x # xs \<Rightarrow> Inr (fold max (map abs xs) \<bar>x\<bar>))"

subsection \<open>Processing one chunk\<close>

text \<open>Lines 165 to 171: the chunk offset from the start time the trimmer returned.\<close>

definition chunk_offset :: "real option \<Rightarrow> real" where
  "chunk_offset start_time =
     (case start_time of
        Some t \<Rightarrow> (let chunk_offset = t - 0.2 in if chunk_offset < 0 then 0 else chunk_offset)
      | None \<Rightarrow> 0)"

text \<open>
  Line 189, the condition \<open>transcription.strip() and transcription.strip() != "."\<close>
  (``only print meaningful transcriptions'').
\<close>

definition meaningful :: "string \<Rightarrow> bool" where
  "meaningful transcription = (strip transcription \<noteq> [] \<and> strip transcription \<noteq> ''.'')"

text \<open>
  Lines 189 to 209: what is written for one transcription. The only fault is that of
  \<open>np.max\<close> on empty audio.
\<close>

definition emit :: "bool \<Rightarrow> real list \<Rightarrow> string \<Rightarrow> exn + ('f, 'r) event list" where
  "emit stream_output improved_audio transcription =
     (if meaningful transcription then
        (if stream_output
         then Inr (Print ''[Transcription] ''
                   # concat (map (\<lambda>char. [Print [char], Sleep 0.01]) transcription)
                   @ [Print newline])
         else Inr [Print (''[Transcription] '' @ transcription @ newline)])
      else if strip transcription = ''.'' then Inr []
      else (case np_max_abs improved_audio of
              Inl e \<Rightarrow> Inl e
            | Inr peak \<Rightarrow>
                if peak > 0.05
                then (if stream_output
                      then Inr [Print ''[Transcription] (unclear)'']
                      else Inr [Print (''[Transcription] (unclear audio)'' @ newline)])
                else Inr []))"

text \<open>
  Lines 183 to 209, the body of \<open>for mel in mel_spectrograms\<close> for one frame: the events,
  the world afterwards, and the exception that ended it, if any.
\<close>

definition process_frame ::
  "('f, 'r, 'w) collaborators \<Rightarrow> bool \<Rightarrow> real list \<Rightarrow> 'f \<Rightarrow> 'w
     \<Rightarrow> ('f, 'r) event list \<times> 'w \<times> exn option" where
  "process_frame C stream_output improved_audio mel w =
     (case send_data C mel w of
        (Inl e, w1) \<Rightarrow> ([SendData mel], w1, Some e)
      | (Inr _, w1) \<Rightarrow>
          (case get_transcription C w1 of
             (Inl e, w2) \<Rightarrow> ([SendData mel, Sleep 0.05, GetTranscription], w2, Some e)
           | (Inr raw_transcription, w2) \<Rightarrow>
               (case clean_transcription C raw_transcription w2 of
                  (Inl e, w3) \<Rightarrow>
                    ([SendData mel, Sleep 0.05, GetTranscription,
                      CleanTranscription raw_transcription], w3, Some e)
                | (Inr transcription, w3) \<Rightarrow>
                    (case emit stream_output improved_audio transcription of
                       Inl e \<Rightarrow>
                         ([SendData mel, Sleep 0.05, GetTranscription,
                           CleanTranscription raw_transcription], w3, Some e)
                     | Inr out \<Rightarrow>
                         ([SendData mel, Sleep 0.05, GetTranscription,
                           CleanTranscription raw_transcription] @ out, w3, None)))))"

text \<open>Lines 182 to 209: the loop over the frames stops at the first exception.\<close>

fun process_frames ::
  "('f, 'r, 'w) collaborators \<Rightarrow> bool \<Rightarrow> real list \<Rightarrow> 'f list \<Rightarrow> 'w
     \<Rightarrow> ('f, 'r) event list \<times> 'w \<times> exn option" where
  "process_frames C stream_output improved_audio [] w = ([], w, None)"
| "process_frames C stream_output improved_audio (mel # mels) w =
     (case process_frame C stream_output improved_audio mel w of
        (evs, w', Some e) \<Rightarrow> (evs, w', Some e)
      | (evs, w', None) \<Rightarrow>
          (case process_frames C stream_output improved_audio mels w' of
             (evs', w'', r) \<Rightarrow> (evs @ evs', w'', r)))"

text \<open>Lines 161 to 209, the \<open>try\<close> block for one chunk.\<close>

definition process_chunk_body ::
  "('f, 'r, 'w) collaborators \<Rightarrow> bool \<Rightarrow> real \<Rightarrow> bool \<Rightarrow> bool \<Rightarrow> real list \<Rightarrow> 'w
     \<Rightarrow> ('f, 'r) event list \<times> 'w \<times> exn option" where
  "process_chunk_body C is_nhwc chunk_length fast_mode stream_output audio_chunk w =
     (let use_vad = \<not> fast_mode in
      case improve_input_audio C audio_chunk use_vad True w of
        (Inl e, w1) \<Rightarrow> ([Trim audio_chunk use_vad True], w1, Some e)
      | (Inr (improved_audio, start_time), w1) \<Rightarrow>
          (case preprocess C improved_audio is_nhwc chunk_length (chunk_offset start_time) w1 of
             (Inl e, w2) \<Rightarrow>
               ([Trim audio_chunk use_vad True,
                 Preprocess improved_audio is_nhwc chunk_length (chunk_offset start_time)],
                w2, Some e)
           | (Inr mel_spectrograms, w2) \<Rightarrow>
               (case process_frames C stream_output improved_audio mel_spectrograms w2 of
                  (evs, w3, r) \<Rightarrow>
                    ([Trim audio_chunk use_vad True,
                      Preprocess improved_audio is_nhwc chunk_length (chunk_offset start_time)]
                     @ evs, w3, r))))"

text \<open>Lines 160 to 211: the \<open>try\<close> block with its handler, which prints the exception.\<close>

definition process_chunk ::
  "('f, 'r, 'w) collaborators \<Rightarrow> bool \<Rightarrow> real \<Rightarrow> bool \<Rightarrow> bool \<Rightarrow> real list \<Rightarrow> 'w
     \<Rightarrow> ('f, 'r) event list \<times> 'w" where
  "process_chunk C is_nhwc chunk_length fast_mode stream_output audio_chunk w =
     (case process_chunk_body C is_nhwc chunk_length fast_mode stream_output audio_chunk w of
        (evs, w', None) \<Rightarrow> (evs, w')
      | (evs, w', Some e) \<Rightarrow> (evs @ [Print (''Error: '' @ str_exn e @ newline)], w'))"

subsection \<open>The session: capture callback and worker over the shared state\<close>

record ('f, 'r, 'w) session =
  audio_buffer :: "real list"
  world :: 'w
  trace :: "('f, 'r) event list"
  chunks_processed :: nat

text \<open>
  Lines 130 to 137. \<open>status\<close> is the text of the status flags, empty when none is set.
\<close>

definition audio_callback ::
  "real indata \<Rightarrow> string \<Rightarrow> ('f, 'r, 'w) session \<Rightarrow> ('f, 'r, 'w) session" where
  "audio_callback indata status s =
     s\<lparr>trace := trace s @ (if status \<noteq> [] then [Print (''Audio status: '' @ status @ newline)] else []),
       audio_buffer := buffer_append indata (audio_buffer s)\<rparr>"

text \<open>Lines 144 to 213: one pass of the worker's \<open>while True\<close> loop.\<close>

definition worker_iteration ::
  "('f, 'r, 'w) collaborators \<Rightarrow> int \<Rightarrow> bool \<Rightarrow> real \<Rightarrow> bool \<Rightarrow> bool
     \<Rightarrow> ('f, 'r, 'w) session \<Rightarrow> ('f, 'r, 'w) session" where
  "worker_iteration C SAMPLE_RATE is_nhwc chunk_length fast_mode stream_output s =
     (case worker_extract (required_samples chunk_length SAMPLE_RATE) (audio_buffer s) of
        (audio_chunk, buf) \<Rightarrow>
          (case audio_chunk of
             Some chunk \<Rightarrow>
               if length chunk > 0 then
                 (case process_chunk C is_nhwc chunk_length fast_mode stream_output chunk (world s) of
                    (evs, w) \<Rightarrow>
                      s\<lparr>audio_buffer := buf, world := w,
                        trace := trace s @ evs @ [Sleep 0.01],
                        chunks_processed := chunks_processed s + 1\<rparr>)
               else s\<lparr>audio_buffer := buf, trace := trace s @ [Sleep 0.01]\<rparr>
           | None \<Rightarrow> s\<lparr>audio_buffer := buf, trace := trace s @ [Sleep 0.01]\<rparr>))"

text \<open>
  The capture callback and the worker run on two threads and touch the buffer only under
  the lock, so a run of \<open>real_time_stt\<close> is an interleaving of callbacks and worker passes.
  The banner lines that \<open>real_time_stt\<close> prints before it starts the two are not part of
  the trace.
\<close>

datatype step = Callback "real indata" string | Worker

fun run_steps ::
  "('f, 'r, 'w) collaborators \<Rightarrow> int \<Rightarrow> bool \<Rightarrow> real \<Rightarrow> bool \<Rightarrow> bool
     \<Rightarrow> step list \<Rightarrow> ('f, 'r, 'w) session \<Rightarrow> ('f, 'r, 'w) session" where
  "run_steps C SAMPLE_RATE is_nhwc chunk_length fast_mode stream_output [] s = s"
| "run_steps C SAMPLE_RATE is_nhwc chunk_length fast_mode stream_output (Callback indata status # steps) s =
     run_steps C SAMPLE_RATE is_nhwc chunk_length fast_mode stream_output steps
       (audio_callback indata status s)"
| "run_steps C SAMPLE_RATE is_nhwc chunk_length fast_mode stream_output (Worker # steps) s =
     run_steps C SAMPLE_RATE is_nhwc chunk_length fast_mode stream_output steps
       (worker_iteration C SAMPLE_RATE is_nhwc chunk_length fast_mode stream_output s)"

text \<open>The samples captured by the callbacks of a run, in order.\<close>

fun captured :: "step list \<Rightarrow> real list" where
  "captured [] = []"
| "captured (Callback indata status # steps) = column0 indata @ captured steps"
| "captured (Worker # steps) = captured steps"

text \<open>The chunks handed to the trimmer in a trace, in order.\<close>

fun trimmed_chunks :: "('f, 'r) event list \<Rightarrow> real list list" where
  "trimmed_chunks [] = []"
| "trimmed_chunks (Trim audio_chunk vad low_audio_gain # evs) = audio_chunk # trimmed_chunks evs"
| "trimmed_chunks (ev # evs) = trimmed_chunks evs"

text \<open>The text written to standard output in a trace, in order.\<close>

fun printed_text :: "('f, 'r) event list \<Rightarrow> string list" where
  "printed_text [] = []"
| "printed_text (Print text # evs) = text # printed_text evs"
| "printed_text (ev # evs) = printed_text evs"

text \<open>
  The traffic with the inference backend in a trace: submissions, polls, and the
  throttle delay of line 184 between them.
\<close>

fun backend_traffic :: "('f, 'r) event list \<Rightarrow> ('f, 'r) event list" where
  "backend_traffic [] = []"
| "backend_traffic (SendData mel # evs) = SendData mel # backend_traffic evs"
| "backend_traffic (GetTranscription # evs) = GetTranscription # backend_traffic evs"
| "backend_traffic (Sleep d # evs) =
     (if d = 0.05 then Sleep d # backend_traffic evs else backend_traffic evs)"
| "backend_traffic (ev # evs) = backend_traffic evs"

text \<open>Submissions and output in a trace: what was sent and what was written, in order.\<close>

fun sent_and_printed :: "('f, 'r) event list \<Rightarrow> ('f + string) list" where
  "sent_and_printed [] = []"
| "sent_and_printed (SendData mel # evs) = Inl mel # sent_and_printed evs"
| "sent_and_printed (Print text # evs) = Inr text # sent_and_printed evs"
| "sent_and_printed (ev # evs) = sent_and_printed evs"

subsection \<open>The voice-activity trimmer\<close>

text \<open>
  Modelled from the spec: \<open>improve_input_audio\<close> of \<open>common/preprocessing.py\<close> is missing
  from these sources. The spec describes it as \<open>trim(audio, enableVad, applyGain) ->
  (trimmedAudio, onsetSecondsOrNone)\<close>: gain normalization over the chunk, then
  voice-activity trimming, which detects the speech onset and can be disabled; with
  voice-activity detection disabled the onset is none. The gain stage and the detector
  are internals the spec leaves open, so they are parameters.
\<close>

definition improve_input_audio_spec ::
  "(real list \<Rightarrow> 'w \<Rightarrow> (exn + real list) \<times> 'w)
     \<Rightarrow> (real list \<Rightarrow> 'w \<Rightarrow> (exn + real list \<times> real option) \<times> 'w)
     \<Rightarrow> real list \<Rightarrow> bool \<Rightarrow> bool \<Rightarrow> 'w \<Rightarrow> (exn + real list \<times> real option) \<times> 'w" where
  "improve_input_audio_spec apply_gain vad_trim audio enable_vad gain w =
     (case (if gain then apply_gain audio w else (Inr audio, w)) of
        (Inl e, w1) \<Rightarrow> (Inl e, w1)
      | (Inr normalized, w1) \<Rightarrow>
          if enable_vad then vad_trim normalized w1 else (Inr (normalized, None), w1))"

subsection \<open>Simulated collaborators\<close>

text \<open>
  A simulated set of collaborators on which the worker can be evaluated: frames are lists
  of samples, raw results are strings, and the world is the queue of results the backend
  will return, polling an empty queue being a fault. The trimmer reports an onset of one
  second when voice-activity detection is on, and the extractor cuts every chunk into
  two frames.
\<close>

definition sim :: "(real list, string, string list) collaborators" where
  "sim = \<lparr>improve_input_audio =
            (\<lambda>audio vad low_audio_gain w. (Inr (audio, if vad then Some 1 else None), w)),
          preprocess = (\<lambda>audio is_nhwc chunk_length chunk_offset w. (Inr [audio, audio], w)),
          send_data = (\<lambda>mel w. (Inr (), w)),
          get_transcription =
            (\<lambda>w. case w of [] \<Rightarrow> (Inl (Exception ''no result''), []) | r # rs \<Rightarrow> (Inr r, rs)),
          clean_transcription = (\<lambda>raw w. (Inr raw, w))\<rparr>"

section \<open>Timing utilities (common/timing_utils.py)\<close>

text \<open>
  The state a timed function runs in: the global flag \<open>SHOW_TIMING\<close>, the reading of
  \<open>time.time()\<close>, the lines printed so far, and everything else a function may read or
  change.
\<close>

record 'u runtime =
  SHOW_TIMING :: bool
  time_time :: real
  printed :: "string list"
  user :: 'u

definition set_timing_display :: "bool \<Rightarrow> 'u runtime \<Rightarrow> 'u runtime" where
  "set_timing_display show_timing rt = rt\<lparr>SHOW_TIMING := show_timing\<rparr>"

definition timed_print :: "string \<Rightarrow> 'u runtime \<Rightarrow> 'u runtime" where
  "timed_print message rt =
     (if SHOW_TIMING rt then rt\<lparr>printed := printed rt @ [message @ newline]\<rparr> else rt)"

text \<open>
  \<open>time_function(func)\<close> returns \<open>wrapper\<close>; the model is \<open>wrapper\<close> applied to its
  arguments. \<open>func_name\<close> is \<open>func.__name__\<close> and \<open>fmt\<close> is the float format \<open>:.3f\<close>. A
  function called from Python returns a value or raises, and may change the state; an
  exception raised by \<open>func\<close> leaves \<open>wrapper\<close> at once.
\<close>

definition time_function ::
  "string \<Rightarrow> (real \<Rightarrow> string) \<Rightarrow> ('a \<Rightarrow> 'u runtime \<Rightarrow> (exn + 'b) \<times> 'u runtime)
     \<Rightarrow> 'a \<Rightarrow> 'u runtime \<Rightarrow> (exn + 'b) \<times> 'u runtime" where
  "time_function func_name fmt func args rt =
     (if SHOW_TIMING rt then
        (let start_time = time_time rt in
         case func args rt of
           (Inl e, rt1) \<Rightarrow> (Inl e, rt1)
         | (Inr result, rt1) \<Rightarrow>
             (let end_time = time_time rt1 in
              (Inr result,
               timed_print (''['' @ func_name @ ''] '' @ fmt (end_time - start_time) @ ''s'') rt1)))
      else func args rt)"

section \<open>Startup (main of app/app_hailo_whisper.py)\<close>

text \<open>
  Python's \<open>sub in s\<close> on strings.
\<close>

fun py_in :: "string \<Rightarrow> string \<Rightarrow> bool" where
  "py_in sub [] = (sub = [])"
| "py_in sub (c # cs) = (prefix sub (c # cs) \<or> py_in sub cs)"

text \<open>
  Lines 85 to 106. \<open>HEF_REGISTRY\<close> (of \<open>app.whisper_hef_registry\<close>) is a dictionary of
  dictionaries and \<open>os.path.exists\<close> reads the file system; both are parameters. A missing
  key and a missing file both raise \<open>FileNotFoundError\<close>.
\<close>

definition get_hef_path ::
  "(string \<rightharpoonup> (string \<rightharpoonup> (string \<rightharpoonup> string))) \<Rightarrow> (string \<Rightarrow> bool)
     \<Rightarrow> string \<Rightarrow> string \<Rightarrow> string \<Rightarrow> exn + string" where
  "get_hef_path HEF_REGISTRY path_exists model_variant hw_arch component =
     (case (case HEF_REGISTRY model_variant of
              None \<Rightarrow> None
            | Some by_arch \<Rightarrow>
                (case by_arch hw_arch of None \<Rightarrow> None | Some by_component \<Rightarrow> by_component component)) of
        None \<Rightarrow>
          Inl (Exception (''HEF not available for model '' @ [CHR 0x27] @ model_variant @ [CHR 0x27]
                 @ '' on hardware '' @ [CHR 0x27] @ hw_arch @ [CHR 0x27] @ ''.''))
      | Some hef_path \<Rightarrow>
          if \<not> path_exists hef_path
          then Inl (Exception (''HEF file not found at: '' @ hef_path @ newline
                 @ ''If not done yet, please run python3 ./download_resources.py --hw-arch ''
                 @ hw_arch @ '' from the app/ folder to download the required HEF files.''))
          else Inr hef_path)"

text \<open>The parsed command line, lines 24 to 82.\<close>

record args =
  reuse_audio :: bool
  hw_arch :: string
  variant :: string
  multi_process_service :: bool
  real_time :: bool
  fast_mode :: bool
  stream_output :: bool
  timing :: bool
  chunk_length :: "real option"

text \<open>
  What \<open>main\<close> starts once its setup is over: \<open>real_time_stt\<close> with its six arguments, or
  the batch loop with \<open>is_nhwc\<close> and \<open>chunk_length\<close>. \<open>'p\<close> is the pipeline object.
\<close>

datatype 'p launch =
    RealTime 'p bool real bool bool bool
  | Batch 'p bool real

text \<open>
  Lines 239 to 275: \<open>main\<close> up to the point where it enters \<open>real_time_stt\<close> or the batch
  loop. An exception of \<open>get_hef_path\<close> or of the pipeline constructor is not caught and
  ends the program. The constructor \<open>HailoWhisperPipeline\<close> is a parameter. The lines that
  \<open>main\<close> prints are left out.
\<close>

definition main ::
  "(string \<rightharpoonup> (string \<rightharpoonup> (string \<rightharpoonup> string))) \<Rightarrow> (string \<Rightarrow> bool)
     \<Rightarrow> (string \<Rightarrow> string \<Rightarrow> string \<Rightarrow> bool \<Rightarrow> exn + 'p) \<Rightarrow> args \<Rightarrow> exn + 'p launch" where
  "main HEF_REGISTRY path_exists HailoWhisperPipeline a =
     (case get_hef_path HEF_REGISTRY path_exists (variant a) (hw_arch a) ''encoder'' of
        Inl e \<Rightarrow> Inl e
      | Inr encoder_path \<Rightarrow>
          (case get_hef_path HEF_REGISTRY path_exists (variant a) (hw_arch a) ''decoder'' of
             Inl e \<Rightarrow> Inl e
           | Inr decoder_path \<Rightarrow>
               (case HailoWhisperPipeline encoder_path decoder_path (variant a)
                       (multi_process_service a) of
                  Inl e \<Rightarrow> Inl e
                | Inr whisper_hailo \<Rightarrow>
                    if real_time a then
                      Inr (RealTime whisper_hailo True
                             (case chunk_length a of
                                Some len \<Rightarrow> len
                              | None \<Rightarrow> if py_in ''tiny'' (variant a) then 10 else 5)
                             (fast_mode a) (stream_output a) (timing a))
                    else
                      Inr (Batch whisper_hailo True
                             (if py_in ''tiny'' (variant a) then 10 else 5)))))"

section \<open>Properties of the shared buffer\<close>

lemma worker_extract_split:
  "fst (worker_extract n buf) = Some c \<Longrightarrow> c @ snd (worker_extract n buf) = buf"
  by (auto simp: worker_extract_def split: if_splits)

lemma worker_extract_none:
  "fst (worker_extract n buf) = None \<Longrightarrow> snd (worker_extract n buf) = buf"
  by (auto simp: worker_extract_def split: if_splits)

lemma run_ops_conservation:
  "concat (fst (run_ops ops buf)) @ snd (run_ops ops buf) = buf @ concat (appended ops)"
proof (induction ops buf rule: run_ops.induct)
  case (1 buf)
  show ?case by simp
next
  case (2 indata ops buf)
  then show ?case by (simp add: buffer_append_def)
next
  case (3 n ops buf)
  show ?case
  proof (cases "fst (worker_extract n buf)")
    case None
    with 3(1) [of None "snd (worker_extract n buf)"] worker_extract_none [OF None]
    show ?thesis by (simp add: prod_eq_iff split: prod.splits)
  next
    case (Some c)
    from 3(2) [of "Some c" "snd (worker_extract n buf)" c] Some
    have "concat (fst (run_ops ops (snd (worker_extract n buf)))) @
            snd (run_ops ops (snd (worker_extract n buf))) =
          snd (worker_extract n buf) @ concat (appended ops)"
      by (simp add: prod_eq_iff)
    with Some worker_extract_split [OF Some] show ?thesis
      by (auto simp: prod_eq_iff split: prod.splits option.splits)
  qed
qed

text \<open>
  C1, as amended. The extraction step is all or nothing. It succeeds exactly when the
  requested count \<open>n\<close> is positive and the buffer holds at least \<open>n\<close> samples; then the chunk
  is the first \<open>n\<close> samples and the buffer loses exactly those. In every other case,
  fewer than \<open>n\<close> samples held or \<open>n\<close> zero or negative, the step returns not-ready and the
  buffer is unchanged.
\<close>

theorem worker_extract_all_or_nothing:
  "(case fst (worker_extract n buf) of
      Some chunk \<Rightarrow> 0 < n \<and> n \<le> int (length buf) \<and> chunk = take (nat n) buf
          \<and> int (length chunk) = n \<and> snd (worker_extract n buf) = drop (nat n) buf
          \<and> int (length (snd (worker_extract n buf))) = int (length buf) - n
          \<and> chunk @ snd (worker_extract n buf) = buf
    | None \<Rightarrow> (n \<le> 0 \<or> int (length buf) < n) \<and> snd (worker_extract n buf) = buf)"
  by (auto simp: worker_extract_def)

text \<open>
  C1 as stated fails for a requested count of zero: the buffer holds two samples, which is
  not fewer than zero, yet the step returns not-ready instead of a chunk.
\<close>

theorem worker_extract_zero_counterexample:
  "worker_extract 0 [1, 2 :: real] = (None, [1, 2]) \<and> \<not> int (length [1, 2 :: real]) < 0"
  by (simp add: worker_extract_def)

text \<open>
  C2. Starting from the empty buffer, after any finite sequence of appends and extractions
  the buffer length is the total appended length minus the total length of the chunks
  extracted, and the chunks extracted, concatenated in order, followed by the remaining
  buffer are exactly the appended samples in order: the extracted samples are a prefix of
  the appended stream, none read twice and none skipped.
\<close>

theorem run_ops_length_and_prefix:
  "int (length (snd (run_ops ops []))) =
      int (sum_list (map length (appended ops))) - int (sum_list (map length (fst (run_ops ops []))))
   \<and> concat (fst (run_ops ops [])) @ snd (run_ops ops []) = concat (appended ops)
   \<and> prefix (concat (fst (run_ops ops []))) (concat (appended ops))"
proof -
  have eq: "concat (fst (run_ops ops [])) @ snd (run_ops ops []) = concat (appended ops)"
    using run_ops_conservation [of ops "[]"] by simp
  have "length (concat (fst (run_ops ops []))) + length (snd (run_ops ops [])) =
        length (concat (appended ops))"
    using arg_cong [OF eq, of length] by simp
  then have len: "int (length (snd (run_ops ops []))) =
      int (sum_list (map length (appended ops))) - int (sum_list (map length (fst (run_ops ops []))))"
    by (simp add: length_concat)
  from eq have "prefix (concat (fst (run_ops ops []))) (concat (appended ops))"
    by (metis prefixI)
  with eq len show ?thesis by simp
qed

section \<open>Properties of the processing of one chunk\<close>

lemma dropWhile_all: "(\<forall>x\<in>set (dropWhile P s). P x) \<longleftrightarrow> dropWhile P s = []"
  by (metis hd_dropWhile list.set_sel(1) empty_iff list.set(1))

lemma strip_empty_iff: "strip s = [] \<longleftrightarrow> (\<forall>c \<in> set s. py_isspace c)"
  by (simp add: strip_def dropWhile_all)

lemma process_chunk_body_trim_ok:
  "improve_input_audio C chunk (\<not> fast) True w = (Inr (ia, onset), w1) \<Longrightarrow>
   \<exists>rest. fst (process_chunk_body C nhwc len fast so chunk w) =
      Trim chunk (\<not> fast) True # Preprocess ia nhwc len (chunk_offset onset) # rest"
  by (auto simp: process_chunk_body_def Let_def split: prod.splits sum.splits)

text \<open>
  C3. The chunk offset the worker computes is \<open>max(0, onset - 0.2)\<close> when the trimmer
  returned an onset and 0 when it returned none; it is never negative, whatever the onset,
  negative or missing; an onset of 0.1 gives 0 and an onset of 1.0 gives 0.8. It is this
  value that the worker hands to the feature extractor, for whatever onset the trimmer
  returned.
\<close>

theorem chunk_offset_max:
  "chunk_offset (Some onset) = max 0 (onset - 0.2) \<and> chunk_offset None = 0
   \<and> 0 \<le> chunk_offset start_time
   \<and> chunk_offset (Some 0.1) = 0 \<and> chunk_offset (Some 1.0) = 0.8
   \<and> (improve_input_audio C chunk (\<not> fast) True w = (Inr (ia, start_time), w1) \<longrightarrow>
        (\<exists>rest. fst (process_chunk_body C nhwc len fast so chunk w) =
           Trim chunk (\<not> fast) True
           # Preprocess ia nhwc len (case start_time of Some t \<Rightarrow> max 0 (t - 0.2) | None \<Rightarrow> 0)
           # rest))"
proof -
  have a: "chunk_offset (Some onset) = max 0 (onset - 0.2)" for onset
    by (simp add: chunk_offset_def Let_def max_def)
  have b: "chunk_offset None = 0" by (simp add: chunk_offset_def)
  have c: "0 \<le> chunk_offset start_time"
    by (cases start_time) (simp_all add: a b)
  have d: "chunk_offset (Some 0.1) = 0 \<and> chunk_offset (Some 1.0) = 0.8"
    by (simp add: a)
  have e: "chunk_offset start_time = (case start_time of Some t \<Rightarrow> max 0 (t - 0.2) | None \<Rightarrow> 0)"
    by (cases start_time) (simp_all add: a b)
  show ?thesis
    using a b c d process_chunk_body_trim_ok [of C chunk fast w ia start_time w1 nhwc len so]
    by (simp add: e)
qed

theorem chunk_offset_max_witness:
  "improve_input_audio sim [0.5, 0.25] (\<not> False) True [] = (Inr ([0.5, 0.25], Some 1), [])
   \<and> (\<exists>rest. fst (process_chunk_body sim True 5 False False [0.5, 0.25] []) =
           Trim [0.5, 0.25] True True # Preprocess [0.5, 0.25] True 5 0.8 # rest)"
proof -
  have h: "improve_input_audio sim [0.5, 0.25] (\<not> False) True [] = (Inr ([0.5, 0.25], Some 1), [])"
    by (simp add: sim_def)
  from chunk_offset_max [of 0 "Some 1" sim "[0.5, 0.25]" False "[]" "[0.5, 0.25]" "[]" True 5 False] h
  show ?thesis by simp
qed

text \<open>
  C4. A sanitized transcription is empty after stripping exactly when it consists of
  whitespace only. For a frame with such a transcription, when the peak absolute
  amplitude of the trimmed audio exceeds 0.05 the frame writes exactly one unclear-audio
  marker, and when the peak is 0.05 or less it writes nothing.
\<close>

theorem empty_transcription_gate:
  "(strip transcription = [] \<longleftrightarrow> (\<forall>c \<in> set transcription. py_isspace c))
   \<and> (strip transcription = [] \<longrightarrow> np_max_abs improved_audio = Inr peak \<longrightarrow>
        send_data C mel w = (Inr u, w1) \<longrightarrow> get_transcription C w1 = (Inr raw, w2) \<longrightarrow>
        clean_transcription C raw w2 = (Inr transcription, w3) \<longrightarrow>
        process_frame C so improved_audio mel w =
          ([SendData mel, Sleep 0.05, GetTranscription, CleanTranscription raw]
           @ (if peak > 0.05
              then [Print (if so then ''[Transcription] (unclear)''
                           else ''[Transcription] (unclear audio)'' @ newline)]
              else []), w3, None))"
  using strip_empty_iff [of transcription]
  by (auto simp: process_frame_def emit_def meaningful_def)

theorem empty_transcription_gate_witness:
  "strip '' '' = [] \<and> np_max_abs [0.01, -0.9] = Inr 0.9
   \<and> process_frame sim False [0.01, -0.9] [1] ['' ''] =
        ([SendData [1], Sleep 0.05, GetTranscription, CleanTranscription '' '',
          Print (''[Transcription] (unclear audio)'' @ newline)], [], None)
   \<and> np_max_abs [0.01, -0.05] = Inr 0.05
   \<and> process_frame sim False [0.01, -0.05] [1] ['' ''] =
        ([SendData [1], Sleep 0.05, GetTranscription, CleanTranscription '' ''], [], None)"
proof -
  have a: "strip '' '' = []" by (simp add: strip_def py_isspace_def)
  have b: "np_max_abs [0.01, -0.9] = Inr 0.9" by (simp add: np_max_abs_def)
  have c: "np_max_abs [0.01, -0.05] = Inr 0.05" by (simp add: np_max_abs_def)
  have s: "send_data sim [1] ['' ''] = (Inr (), ['' ''])" by (simp add: sim_def)
  have g: "get_transcription sim ['' ''] = (Inr '' '', [])" by (simp add: sim_def)
  have k: "clean_transcription sim '' '' [] = (Inr '' '', [])" by (simp add: sim_def)
  from empty_transcription_gate [of "'' ''" "[0.01, -0.9]" "0.9" sim "[1]" "['' '']" "()" "['' '']" "'' ''" "[]" "[]" False]
    empty_transcription_gate [of "'' ''" "[0.01, -0.05]" "0.05" sim "[1]" "['' '']" "()" "['' '']" "'' ''" "[]" "[]" False]
    a b c s g k
  show ?thesis by simp
qed

text \<open>
  C5 as stated fails for a transcription that is a single period: with a peak amplitude
  of 0.9 it is not meaningful, and yet nothing is written, no unclear-audio marker.
\<close>

theorem period_counterexample:
  "np_max_abs [0.9] = Inr 0.9 \<and> \<not> meaningful ''.''
   \<and> (emit False [0.9] ''.'' :: exn + (nat, nat) event list) = Inr []"
  by (simp add: emit_def meaningful_def strip_def py_isspace_def np_max_abs_def)

text \<open>
  C5, as amended. A transcription is meaningful exactly when, stripped, it is neither
  empty nor a single period, and a meaningful one is written out. One that is merely a
  period writes nothing, whatever the peak amplitude. Only for an empty one does the
  peak amplitude decide: the unclear-audio marker above 0.05, nothing otherwise.
\<close>

theorem meaningful_classification:
  "(meaningful transcription \<longleftrightarrow> strip transcription \<noteq> [] \<and> strip transcription \<noteq> ''.'')
   \<and> (meaningful transcription \<longrightarrow>
        (emit so improved_audio transcription :: exn + ('f, 'r) event list)
           = Inr (if so
                  then Print ''[Transcription] ''
                       # concat (map (\<lambda>char. [Print [char], Sleep 0.01]) transcription)
                       @ [Print newline]
                  else [Print (''[Transcription] '' @ transcription @ newline)]))
   \<and> (strip transcription = ''.'' \<longrightarrow>
        (emit so improved_audio transcription :: exn + ('f, 'r) event list) = Inr [])
   \<and> (strip transcription = [] \<longrightarrow> np_max_abs improved_audio = Inr peak \<longrightarrow>
        (emit so improved_audio transcription :: exn + ('f, 'r) event list) =
          (if peak > 0.05
           then Inr [Print (if so then ''[Transcription] (unclear)''
                            else ''[Transcription] (unclear audio)'' @ newline)]
           else Inr []))"
  by (auto simp: emit_def meaningful_def)

theorem meaningful_classification_witness:
  "meaningful ''hi''
   \<and> (emit False [0.9] ''hi'' :: exn + (nat, nat) event list)
        = Inr [Print (''[Transcription] hi'' @ newline)]
   \<and> strip '' . '' = ''.''
   \<and> (emit False [0.9] '' . '' :: exn + (nat, nat) event list) = Inr []
   \<and> strip '' '' = [] \<and> np_max_abs [0.9] = Inr 0.9
   \<and> (emit False [0.9] '' '' :: exn + (nat, nat) event list)
        = Inr [Print (''[Transcription] (unclear audio)'' @ newline)]"
proof -
  have a: "meaningful ''hi''" by (simp add: meaningful_def strip_def py_isspace_def)
  have b: "strip '' . '' = ''.''" by (simp add: strip_def py_isspace_def)
  have c: "strip '' '' = []" by (simp add: strip_def py_isspace_def)
  have d: "np_max_abs [0.9] = Inr 0.9" by (simp add: np_max_abs_def)
  from meaningful_classification [of "''hi''" False "[0.9]" "0.9", where ?'f = nat and ?'r = nat]
    meaningful_classification [of "'' . ''" False "[0.9]" "0.9", where ?'f = nat and ?'r = nat]
    meaningful_classification [of "'' ''" False "[0.9]" "0.9", where ?'f = nat and ?'r = nat]
    a b c d
  show ?thesis by simp
qed

section \<open>Properties of the worker and of startup\<close>

lemma trimmed_chunks_append:
  "trimmed_chunks (xs @ ys) = trimmed_chunks xs @ trimmed_chunks ys"
  by (induction xs rule: trimmed_chunks.induct) simp_all

lemma worker_iteration_idle:
  "required_samples len SR \<le> 0 \<Longrightarrow>
   worker_iteration C SR nhwc len fast so s = s\<lparr>trace := trace s @ [Sleep 0.01]\<rparr>"
  by (simp add: worker_iteration_def worker_extract_def)

lemma run_steps_idle:
  "required_samples len SR \<le> 0 \<Longrightarrow>
   audio_buffer (run_steps C SR nhwc len fast so steps s) = audio_buffer s @ captured steps
   \<and> chunks_processed (run_steps C SR nhwc len fast so steps s) = chunks_processed s
   \<and> world (run_steps C SR nhwc len fast so steps s) = world s
   \<and> trimmed_chunks (trace (run_steps C SR nhwc len fast so steps s)) = trimmed_chunks (trace s)"
proof (induction steps arbitrary: s)
  case Nil
  show ?case by simp
next
  case (Cons st steps)
  show ?case
  proof (cases st)
    case (Callback indata status)
    with Cons.IH [OF Cons.prems, of "audio_callback indata status s"] show ?thesis
      by (simp add: audio_callback_def buffer_append_def trimmed_chunks_append)
  next
    case Worker
    with Cons.IH [OF Cons.prems, of "s\<lparr>trace := trace s @ [Sleep 0.01]\<rparr>"] Cons.prems
    show ?thesis
      by (simp add: worker_iteration_idle trimmed_chunks_append)
  qed
qed

lemma process_chunk_trace:
  "fst (process_chunk C nhwc len fast so chunk w) =
     fst (process_chunk_body C nhwc len fast so chunk w)
     @ (case snd (snd (process_chunk_body C nhwc len fast so chunk w)) of
          None \<Rightarrow> [] | Some e \<Rightarrow> [Print (''Error: '' @ str_exn e @ newline)])"
  by (simp add: process_chunk_def split: prod.splits option.splits)

lemma process_chunk_body_first:
  "\<exists>rest. fst (process_chunk_body C nhwc len fast so chunk w) = Trim chunk (\<not> fast) True # rest"
  by (auto simp: process_chunk_body_def Let_def split: prod.splits sum.splits)

text \<open>
  C6 as stated fails: with a chunk length of 0 seconds, whose product with a sample rate of
  16000 is zero, \<open>main\<close> raises nothing and enters the real-time loop with that chunk
  length.
\<close>

theorem chunk_length_zero_counterexample:
  "main (\<lambda>v. Some (\<lambda>h. Some (\<lambda>c. Some ''whisper.hef''))) (\<lambda>path. True) (\<lambda>enc dec v m. Inr ())
      \<lparr>reuse_audio = False, hw_arch = ''hailo8'', variant = ''base'',
       multi_process_service = False, real_time = True, fast_mode = False,
       stream_output = False, timing = False, chunk_length = Some 0\<rparr>
     = Inr (RealTime () True 0 False False False)
   \<and> required_samples 0 16000 = 0"
  by (simp add: main_def get_hef_path_def required_samples_def py_int_def)

text \<open>
  C6, as amended. \<open>main\<close> does not look at the chunk length: once the model files are found
  and the pipeline is built it enters the real-time loop with the chunk length given on the
  command line, whatever its sign. In the loop a chunk length whose sample count is zero
  or negative makes every extraction return not-ready: over any run no chunk is handed to
  the trimmer, the backend is never called, and the buffer holds everything captured.
\<close>

theorem chunk_length_not_validated:
  "(get_hef_path REG ex (variant a) (hw_arch a) ''encoder'' = Inr enc \<longrightarrow>
    get_hef_path REG ex (variant a) (hw_arch a) ''decoder'' = Inr dec \<longrightarrow>
    HWP enc dec (variant a) (multi_process_service a) = Inr p \<longrightarrow>
    real_time a \<longrightarrow> chunk_length a = Some len \<longrightarrow>
      main REG ex HWP a = Inr (RealTime p True len (fast_mode a) (stream_output a) (timing a)))
   \<and> (required_samples len SR \<le> 0 \<longrightarrow>
        worker_extract (required_samples len SR) (audio_buffer s) = (None, audio_buffer s)
        \<and> audio_buffer (run_steps C SR nhwc len fast so steps s) = audio_buffer s @ captured steps
        \<and> chunks_processed (run_steps C SR nhwc len fast so steps s) = chunks_processed s
        \<and> world (run_steps C SR nhwc len fast so steps s) = world s
        \<and> trimmed_chunks (trace (run_steps C SR nhwc len fast so steps s)) = trimmed_chunks (trace s))"
proof -
  have m: "get_hef_path REG ex (variant a) (hw_arch a) ''encoder'' = Inr enc \<longrightarrow>
    get_hef_path REG ex (variant a) (hw_arch a) ''decoder'' = Inr dec \<longrightarrow>
    HWP enc dec (variant a) (multi_process_service a) = Inr p \<longrightarrow>
    real_time a \<longrightarrow> chunk_length a = Some len \<longrightarrow>
      main REG ex HWP a = Inr (RealTime p True len (fast_mode a) (stream_output a) (timing a))"
    by (simp add: main_def)
  have e: "required_samples len SR \<le> 0 \<Longrightarrow>
        worker_extract (required_samples len SR) (audio_buffer s) = (None, audio_buffer s)"
    by (simp add: worker_extract_def)
  from m e run_steps_idle [of len SR C nhwc fast so steps s] show ?thesis by blast
qed

theorem chunk_length_not_validated_witness:
  "main (\<lambda>v. Some (\<lambda>h. Some (\<lambda>c. Some ''whisper.hef''))) (\<lambda>path. True) (\<lambda>enc dec v m. Inr ())
      \<lparr>reuse_audio = False, hw_arch = ''hailo8'', variant = ''tiny'',
       multi_process_service = False, real_time = True, fast_mode = True,
       stream_output = False, timing = False, chunk_length = Some (-0.5)\<rparr>
     = Inr (RealTime () True (-0.5) True False False)
   \<and> required_samples (-0.5) 16000 = -8000
   \<and> audio_buffer (run_steps sim 16000 True (-0.5) True False
        [Callback [(0.5, []), (0.25, [])] [], Worker, Callback [(0.75, [])] [], Worker]
        \<lparr>audio_buffer = [], world = [''hi''], trace = [], chunks_processed = 0\<rparr>)
      = [0.5, 0.25, 0.75]
   \<and> chunks_processed (run_steps sim 16000 True (-0.5) True False
        [Callback [(0.5, []), (0.25, [])] [], Worker, Callback [(0.75, [])] [], Worker]
        \<lparr>audio_buffer = [], world = [''hi''], trace = [], chunks_processed = 0\<rparr>)
      = 0"
proof -
  let ?REG = "\<lambda>v::string. Some (\<lambda>h::string. Some (\<lambda>c::string. Some ''whisper.hef''))"
  let ?a = "\<lparr>reuse_audio = False, hw_arch = ''hailo8'', variant = ''tiny'',
       multi_process_service = False, real_time = True, fast_mode = True,
       stream_output = False, timing = False, chunk_length = Some (-0.5)\<rparr>"
  have g1: "get_hef_path ?REG (\<lambda>path. True) (variant ?a) (hw_arch ?a) ''encoder'' = Inr ''whisper.hef''"
    by (simp add: get_hef_path_def)
  have g2: "get_hef_path ?REG (\<lambda>path. True) (variant ?a) (hw_arch ?a) ''decoder'' = Inr ''whisper.hef''"
    by (simp add: get_hef_path_def)
  have r: "required_samples (-0.5) 16000 = -8000"
    by (simp add: required_samples_def py_int_def)
  from chunk_length_not_validated [of ?REG "\<lambda>path. True" ?a "''whisper.hef''" "''whisper.hef''"
        "\<lambda>enc dec v m. Inr ()" "()" "-0.5" 16000
        "\<lparr>audio_buffer = [], world = [''hi''], trace = [], chunks_processed = 0\<rparr>"
        sim True True False
        "[Callback [(0.5, []), (0.25, [])] [], Worker, Callback [(0.75, [])] [], Worker]"]
    g1 g2 r
  show ?thesis by (simp add: column0_def)
qed

text \<open>
  C7. The worker calls the trimmer with voice-activity detection on exactly when fast mode
  is off. With fast mode on and the trimmer as the spec describes it, the onset returned is
  none, and the chunk offset handed to the feature extractor is 0.
\<close>

theorem fast_mode_disables_vad:
  "(\<exists>rest. fst (process_chunk C nhwc len fast so chunk w) = Trim chunk (\<not> fast) True # rest)
   \<and> (improve_input_audio C = improve_input_audio_spec apply_gain vad_trim \<longrightarrow>
       improve_input_audio C chunk False True w = (Inr (ia, onset), w1) \<longrightarrow>
         onset = None \<and> chunk_offset onset = 0
         \<and> (\<exists>rest. fst (process_chunk C nhwc len True so chunk w) =
               Trim chunk False True # Preprocess ia nhwc len 0 # rest))"
proof -
  have a: "\<exists>rest. fst (process_chunk C nhwc len fast so chunk w) = Trim chunk (\<not> fast) True # rest"
    using process_chunk_body_first [of C nhwc len fast so chunk w]
    by (auto simp: process_chunk_trace)
  have b: "onset = None"
    if "improve_input_audio C = improve_input_audio_spec apply_gain vad_trim"
      and "improve_input_audio C chunk False True w = (Inr (ia, onset), w1)"
    using that by (auto simp: improve_input_audio_spec_def split: prod.splits sum.splits)
  have c: "\<exists>rest. fst (process_chunk C nhwc len True so chunk w) =
               Trim chunk False True # Preprocess ia nhwc len 0 # rest"
    if "improve_input_audio C chunk False True w = (Inr (ia, None), w1)"
    using process_chunk_body_trim_ok [of C chunk True w ia None w1 nhwc len so] that
    by (auto simp: process_chunk_trace chunk_offset_def)
  from a b c show ?thesis by (auto simp: chunk_offset_def)
qed

theorem fast_mode_disables_vad_witness:
  "improve_input_audio_spec (\<lambda>a w. (Inr (map ((*) 2) a), w)) (\<lambda>a w. (Inr (a, Some 1), w))
      [0.5] False True [''hi''] = (Inr ([1], None), [''hi''])
   \<and> (\<exists>rest. fst (process_chunk
         (sim\<lparr>improve_input_audio :=
                improve_input_audio_spec (\<lambda>a w. (Inr (map ((*) 2) a), w)) (\<lambda>a w. (Inr (a, Some 1), w))\<rparr>)
         True 5 True False [0.5] [''hi'']) =
       Trim [0.5] False True # Preprocess [1] True 5 0 # rest)"
proof -
  let ?C = "sim\<lparr>improve_input_audio :=
                improve_input_audio_spec (\<lambda>a w. (Inr (map ((*) 2) a), w)) (\<lambda>a w. (Inr (a, Some 1), w))\<rparr>"
  have h1: "improve_input_audio ?C =
      improve_input_audio_spec (\<lambda>a w. (Inr (map ((*) 2) a), w)) (\<lambda>a w. (Inr (a, Some 1), w))"
    by simp
  have h2: "improve_input_audio ?C [0.5] False True [''hi''] = (Inr ([1], None), [''hi''])"
    by (simp add: improve_input_audio_spec_def)
  from fast_mode_disables_vad [of ?C True 5 True False "[0.5]" "[''hi'']" _ _ "[1]" None "[''hi'']"] h1 h2
  show ?thesis by simp
qed

section \<open>Properties of the frame loop and of the session\<close>

lemma printed_text_append:
  "printed_text (xs @ ys) = printed_text xs @ printed_text ys"
  by (induction xs rule: printed_text.induct) simp_all







lemma process_frame_fault:
  "process_frame C so ia mel w = (evs, w', Some e) \<Longrightarrow>
     printed_text evs = [] \<and> trimmed_chunks evs = []
     \<and> prefix (backend_traffic evs) [SendData mel, Sleep 0.05, GetTranscription]
     \<and> sent_and_printed evs = [Inl mel]"
  by (auto simp: process_frame_def split: prod.splits sum.splits)





lemma process_frames_fault:
  "process_frames C so ia mels w = (evs, w', Some e) \<Longrightarrow>
   \<exists>k pre wk. k < length mels \<and> process_frames C so ia (take k mels) w = (pre, wk, None)
      \<and> printed_text evs = printed_text pre"
proof (induction mels arbitrary: w evs)
  case Nil
  then show ?case by simp
next
  case (Cons mel mels)
  obtain evs1 w1 r where pf: "process_frame C so ia mel w = (evs1, w1, r)"
    by (cases "process_frame C so ia mel w") auto
  show ?case
  proof (cases r)
    case None
    obtain evs2 w2 r2 where rest: "process_frames C so ia mels w1 = (evs2, w2, r2)"
      by (cases "process_frames C so ia mels w1") auto
    with pf None Cons.prems have r2: "r2 = Some e" and evs: "evs = evs1 @ evs2" by simp_all
    from Cons.IH [of w1 evs2] rest r2 Cons.prems pf None
    obtain k pre wk where k: "k < length mels"
      "process_frames C so ia (take k mels) w1 = (pre, wk, None)"
      "printed_text evs2 = printed_text pre"
      by auto
    have "Suc k < length (mel # mels)
       \<and> process_frames C so ia (take (Suc k) (mel # mels)) w = (evs1 @ pre, wk, None)
       \<and> printed_text evs = printed_text (evs1 @ pre)"
      using k pf None evs by (simp add: printed_text_append)
    then show ?thesis by blast
  next
    case (Some e')
    with pf Cons.prems process_frame_fault [of C so ia mel w evs1 w1 e']
    have "0 < length (mel # mels) \<and> process_frames C so ia (take 0 (mel # mels)) w = ([], w, None)
        \<and> printed_text evs = printed_text []"
      by simp
    then show ?thesis by blast
  qed
qed



lemma worker_iteration_buffer:
  "audio_buffer (worker_iteration C SR nhwc len fast so s) =
     snd (worker_extract (required_samples len SR) (audio_buffer s))"
  by (simp add: worker_iteration_def split: prod.splits option.splits)




lemma run_steps_buffer_indep:
  "audio_buffer s = audio_buffer s' \<Longrightarrow>
   audio_buffer (run_steps C SR nhwc len fast so steps s) =
   audio_buffer (run_steps C' SR nhwc len fast' so' steps s')"
proof (induction steps arbitrary: s s')
  case Nil
  then show ?case by simp
next
  case (Cons st steps)
  show ?case
  proof (cases st)
    case (Callback indata status)
    with Cons.IH [of "audio_callback indata status s" "audio_callback indata status s'"] Cons.prems
    show ?thesis by (simp add: audio_callback_def)
  next
    case Worker
    with Cons.IH [of "worker_iteration C SR nhwc len fast so s"
                     "worker_iteration C' SR nhwc len fast' so' s'"] Cons.prems
    show ?thesis by (simp add: worker_iteration_buffer)
  qed
qed

text \<open>
  C8 as stated fails when the fault comes at a later frame of the chunk: the extractor
  yields two frames, the first is transcribed and written, the poll for the second raises.
  The fault is logged, and the chunk has produced output.
\<close>

theorem later_frame_fault_counterexample:
  "process_chunk sim True 5 False False [0.5] [''hi''] =
     ([Trim [0.5] True True, Preprocess [0.5] True 5 0.8,
       SendData [0.5], Sleep 0.05, GetTranscription, CleanTranscription ''hi'',
       Print (''[Transcription] hi'' @ newline),
       SendData [0.5], Sleep 0.05, GetTranscription,
       Print (''Error: no result'' @ newline)], [])"
  by (simp add: process_chunk_def process_chunk_body_def process_frame_def sim_def
        chunk_offset_def emit_def meaningful_def strip_def py_isspace_def)

text \<open>
  C8, as amended. A fault raised while a chunk is processed ends the processing of that
  chunk and is logged as \<open>Error:\<close> with its text, the last thing written for the chunk.
  Raised by the trimmer or by the feature extractor, it leaves the chunk without any
  output. Raised at a frame, it leaves that frame and the later ones without output; what
  the earlier frames of the chunk wrote has been written. The buffer after a worker pass
  is what the extraction left, whatever the collaborators did, so over any run the buffer
  is the same with faults as without, and the worker goes on to the next chunk.
\<close>

theorem chunk_fault_isolated:
  "(improve_input_audio C chunk (\<not> fast) True w = (Inl e, w1) \<longrightarrow>
      process_chunk C nhwc len fast so chunk w =
        ([Trim chunk (\<not> fast) True, Print (''Error: '' @ str_exn e @ newline)], w1))
   \<and> (improve_input_audio C chunk (\<not> fast) True w = (Inr (ia, st), w1) \<longrightarrow>
       preprocess C ia nhwc len (chunk_offset st) w1 = (Inl e, w2) \<longrightarrow>
      process_chunk C nhwc len fast so chunk w =
        ([Trim chunk (\<not> fast) True, Preprocess ia nhwc len (chunk_offset st),
          Print (''Error: '' @ str_exn e @ newline)], w2))
   \<and> (improve_input_audio C chunk (\<not> fast) True w = (Inr (ia, st), w1) \<longrightarrow>
       preprocess C ia nhwc len (chunk_offset st) w1 = (Inr mels, w2) \<longrightarrow>
       process_frames C so ia mels w2 = (evs, w3, Some e) \<longrightarrow>
      process_chunk C nhwc len fast so chunk w =
        ([Trim chunk (\<not> fast) True, Preprocess ia nhwc len (chunk_offset st)] @ evs
         @ [Print (''Error: '' @ str_exn e @ newline)], w3)
      \<and> (\<exists>k pre wk. k < length mels
            \<and> process_frames C so ia (take k mels) w2 = (pre, wk, None)
            \<and> printed_text evs = printed_text pre))
   \<and> audio_buffer (worker_iteration C SR nhwc len fast so s) =
        snd (worker_extract (required_samples len SR) (audio_buffer s))
   \<and> (audio_buffer s = audio_buffer s' \<longrightarrow>
        audio_buffer (run_steps C SR nhwc len fast so steps s) =
        audio_buffer (run_steps C' SR nhwc len fast so steps s'))"
proof -
  have a: "improve_input_audio C chunk (\<not> fast) True w = (Inl e, w1) \<longrightarrow>
      process_chunk C nhwc len fast so chunk w =
        ([Trim chunk (\<not> fast) True, Print (''Error: '' @ str_exn e @ newline)], w1)"
    by (simp add: process_chunk_def process_chunk_body_def)
  have b: "improve_input_audio C chunk (\<not> fast) True w = (Inr (ia, st), w1) \<longrightarrow>
       preprocess C ia nhwc len (chunk_offset st) w1 = (Inl e, w2) \<longrightarrow>
      process_chunk C nhwc len fast so chunk w =
        ([Trim chunk (\<not> fast) True, Preprocess ia nhwc len (chunk_offset st),
          Print (''Error: '' @ str_exn e @ newline)], w2)"
    by (simp add: process_chunk_def process_chunk_body_def)
  have c: "improve_input_audio C chunk (\<not> fast) True w = (Inr (ia, st), w1) \<longrightarrow>
       preprocess C ia nhwc len (chunk_offset st) w1 = (Inr mels, w2) \<longrightarrow>
       process_frames C so ia mels w2 = (evs, w3, Some e) \<longrightarrow>
      process_chunk C nhwc len fast so chunk w =
        ([Trim chunk (\<not> fast) True, Preprocess ia nhwc len (chunk_offset st)] @ evs
         @ [Print (''Error: '' @ str_exn e @ newline)], w3)"
    by (simp add: process_chunk_def process_chunk_body_def)
  have d: "process_frames C so ia mels w2 = (evs, w3, Some e) \<longrightarrow>
      (\<exists>k pre wk. k < length mels
            \<and> process_frames C so ia (take k mels) w2 = (pre, wk, None)
            \<and> printed_text evs = printed_text pre)"
    using process_frames_fault [of C so ia mels w2 evs w3 e] by blast
  have f: "audio_buffer s = audio_buffer s' \<longrightarrow>
        audio_buffer (run_steps C SR nhwc len fast so steps s) =
        audio_buffer (run_steps C' SR nhwc len fast so steps s')"
    using run_steps_buffer_indep [of s s' C SR nhwc len fast so steps C' fast so] by blast
  from a b c d f worker_iteration_buffer [of C SR nhwc len fast so s] show ?thesis
    by blast
qed

theorem chunk_fault_isolated_witness:
  "process_chunk (sim\<lparr>improve_input_audio := (\<lambda>a v g w. (Inl (Exception ''trim failed''), w))\<rparr>)
       True 1 False False [0.5] [''hi'']
     = ([Trim [0.5] True True, Print (''Error: trim failed'' @ newline)], [''hi''])
   \<and> process_chunk (sim\<lparr>preprocess := (\<lambda>a n l off w. (Inl (Exception ''mel failed''), w))\<rparr>)
       True 1 False False [0.5] [''hi'']
     = ([Trim [0.5] True True, Preprocess [0.5] True 1 0.8,
         Print (''Error: mel failed'' @ newline)], [''hi''])
   \<and> process_frames sim False [0.5] [[0.5], [0.5]] [''hi'']
     = ([SendData [0.5], Sleep 0.05, GetTranscription, CleanTranscription ''hi'',
         Print (''[Transcription] hi'' @ newline),
         SendData [0.5], Sleep 0.05, GetTranscription], [], Some (Exception ''no result''))
   \<and> (\<exists>k pre wk. k < length [[0.5], [0.5 :: real]]
         \<and> process_frames sim False [0.5] (take k [[0.5], [0.5]]) [''hi''] = (pre, wk, None)
         \<and> [''[Transcription] hi'' @ newline] = printed_text pre)
   \<and> audio_buffer (worker_iteration sim 2 True 1 False False
         \<lparr>audio_buffer = [0.1, 0.2, 0.3], world = [], trace = [], chunks_processed = 0\<rparr>) = [0.3]
   \<and> audio_buffer (run_steps sim 2 True 1 False False [Callback [(0.4, [])] [], Worker, Worker]
         \<lparr>audio_buffer = [0.1, 0.2, 0.3], world = [], trace = [], chunks_processed = 0\<rparr>)
     = audio_buffer (run_steps (sim\<lparr>send_data := (\<lambda>mel w. (Inr (), ''ok'' # w))\<rparr>) 2 True 1 False False
         [Callback [(0.4, [])] [], Worker, Worker]
         \<lparr>audio_buffer = [0.1, 0.2, 0.3], world = [], trace = [], chunks_processed = 0\<rparr>)"
proof -
  let ?Ct = "sim\<lparr>improve_input_audio := (\<lambda>a v g w. (Inl (Exception ''trim failed''), w))\<rparr>"
  let ?Cp = "sim\<lparr>preprocess := (\<lambda>a n l off w. (Inl (Exception ''mel failed''), w))\<rparr>"
  let ?Cs = "sim\<lparr>send_data := (\<lambda>mel w. (Inr (), ''ok'' # w))\<rparr>"
  let ?s = "\<lparr>audio_buffer = [0.1, 0.2, 0.3], world = [] :: string list,
             trace = [] :: (real list, string) event list, chunks_processed = 0\<rparr>"
  have t: "improve_input_audio ?Ct [0.5] (\<not> False) True [''hi''] = (Inl (Exception ''trim failed''), [''hi''])"
    by simp
  have p1: "improve_input_audio ?Cp [0.5] (\<not> False) True [''hi''] = (Inr ([0.5], Some 1), [''hi''])"
    by (simp add: sim_def)
  have p2: "preprocess ?Cp [0.5] True 1 (chunk_offset (Some 1)) [''hi''] = (Inl (Exception ''mel failed''), [''hi''])"
    by simp
  have f1: "improve_input_audio sim [0.5] (\<not> False) True [''hi''] = (Inr ([0.5], Some 1), [''hi''])"
    by (simp add: sim_def)
  have f2: "preprocess sim [0.5] True 1 (chunk_offset (Some 1)) [''hi''] = (Inr [[0.5], [0.5]], [''hi''])"
    by (simp add: sim_def)
  have f3: "process_frames sim False [0.5] [[0.5], [0.5]] [''hi'']
     = ([SendData [0.5], Sleep 0.05, GetTranscription, CleanTranscription ''hi'',
         Print (''[Transcription] hi'' @ newline),
         SendData [0.5], Sleep 0.05, GetTranscription], [], Some (Exception ''no result''))"
    by (simp add: process_frame_def sim_def emit_def meaningful_def strip_def py_isspace_def)
  have n: "required_samples 1 2 = 2" by (simp add: required_samples_def py_int_def)
  have co: "chunk_offset (Some 1) = 0.8" by (simp add: chunk_offset_def)
  note A = chunk_fault_isolated [where C = ?Ct and chunk = "[0.5]" and fast = False
      and w = "[''hi'']" and e = "Exception ''trim failed''" and ?w1.0 = "[''hi'']"
      and nhwc = True and len = 1 and so = False, THEN conjunct1]
  note B = chunk_fault_isolated [where C = ?Cp and chunk = "[0.5]" and fast = False
      and w = "[''hi'']" and e = "Exception ''mel failed''" and ?w1.0 = "[''hi'']"
      and nhwc = True and len = 1 and so = False and ia = "[0.5]" and st = "Some 1"
      and ?w2.0 = "[''hi'']", THEN conjunct2, THEN conjunct1]
  note D = chunk_fault_isolated [where C = sim and chunk = "[0.5]" and fast = False
      and w = "[''hi'']" and e = "Exception ''no result''" and ?w1.0 = "[''hi'']"
      and nhwc = True and len = 1 and so = False and ia = "[0.5]" and st = "Some 1"
      and ?w2.0 = "[''hi'']" and mels = "[[0.5], [0.5]]" and ?w3.0 = "[]"
      and evs = "[SendData [0.5], Sleep 0.05, GetTranscription, CleanTranscription ''hi'',
         Print (''[Transcription] hi'' @ newline),
         SendData [0.5], Sleep 0.05, GetTranscription]"
      and SR = 2 and s = ?s and s' = ?s and C' = ?Cs
      and steps = "[Callback [(0.4, [])] [], Worker, Worker]",
      THEN conjunct2, THEN conjunct2]
  from A t have a: "process_chunk ?Ct True 1 False False [0.5] [''hi'']
     = ([Trim [0.5] True True, Print (''Error: trim failed'' @ newline)], [''hi''])"
    by simp
  from B p1 p2 co have b: "process_chunk ?Cp True 1 False False [0.5] [''hi'']
     = ([Trim [0.5] True True, Preprocess [0.5] True 1 0.8,
         Print (''Error: mel failed'' @ newline)], [''hi''])"
    by simp
  from D [THEN conjunct1] f1 f2 f3
  have d: "\<exists>k pre wk. k < length [[0.5], [0.5 :: real]]
         \<and> process_frames sim False [0.5] (take k [[0.5], [0.5]]) [''hi''] = (pre, wk, None)
         \<and> [''[Transcription] hi'' @ newline] = printed_text pre"
    by simp
  from D [THEN conjunct2, THEN conjunct1] n
  have e: "audio_buffer (worker_iteration sim 2 True 1 False False ?s) = [0.3]"
    by (simp add: worker_extract_def)
  from D [THEN conjunct2, THEN conjunct2]
  have g: "audio_buffer (run_steps sim 2 True 1 False False [Callback [(0.4, [])] [], Worker, Worker] ?s)
     = audio_buffer (run_steps ?Cs 2 True 1 False False [Callback [(0.4, [])] [], Worker, Worker] ?s)"
    by simp
  from a b f3 d e g show ?thesis by blast
qed











section \<open>Properties of the timing decorator\<close>

text \<open>
  C10. The wrapped function returns what the function returns on the same arguments in
  the same state, a value or an exception, whether the timing flag is set or not. With
  the flag off the state afterwards is the function's too, and with it on the two can
  differ only in the lines printed.
\<close>

theorem time_function_transparent:
  "fst (time_function func_name fmt func a rt) = fst (func a rt)
   \<and> fst (time_function func_name fmt func a (set_timing_display True rt))
       = fst (func a (set_timing_display True rt))
   \<and> fst (time_function func_name fmt func a (set_timing_display False rt))
       = fst (func a (set_timing_display False rt))
   \<and> snd (time_function func_name fmt func a (set_timing_display False rt))
       = snd (func a (set_timing_display False rt))
   \<and> (snd (time_function func_name fmt func a rt))\<lparr>printed := p\<rparr>
       = (snd (func a rt))\<lparr>printed := p\<rparr>"
  by (auto simp: time_function_def timed_print_def set_timing_display_def Let_def
           split: prod.splits sum.splits)

end
